theory Spec2Isabelle
  imports Complex_Main
begin

section \<open>TradPredict: data preparation, policy signal and single-period backtest\<close>

text \<open>
  A shallow embedding of \<^verbatim>\<open>model.py\<close> (class \<^verbatim>\<open>DRLTradingModel\<close>) and of
  \<^verbatim>\<open>instantiate_model\<close> from \<^verbatim>\<open>app.py\<close>.

  Numbers. The program computes with IEEE doubles (numpy \<^verbatim>\<open>float64\<close>). Here a number
  is a \<^typ>\<open>real\<close>: arithmetic is exact and every number is finite. Rounding is
  therefore not modelled, and neither are the values \<^verbatim>\<open>inf\<close> and \<^verbatim>\<open>nan\<close>. Where
  the program would produce such a value without raising (numpy and pandas divide by zero
  with a warning only), the model stops with the outcome \<open>NonFinite\<close>; where Python
  raises, the model returns the exception as a value.
\<close>

subsection \<open>Data frames\<close>

text \<open>
  A cell of a column that may arrive with dtype \<^verbatim>\<open>object\<close> is either a string as
  read from the CSV (\<^verbatim>\<open>"2,450.10"\<close>) or a number.
\<close>

datatype cell = Str string | Num real

fun is_Str :: "cell \<Rightarrow> bool" where
  "is_Str (Str t) = True"
| "is_Str (Num x) = False"

text \<open>
  One line of the frame. The seven price columns are those of \<^verbatim>\<open>cols_to_clean\<close>;
  the columns \<^verbatim>\<open>30 d % chng\<close>, \<^verbatim>\<open>365 d % chng\<close> and \<^verbatim>\<open>Volume (lacs)\<close> are used
  arithmetically without conversion, so they are numeric. The two derived columns are
  absent (\<open>None\<close>) until \<^verbatim>\<open>_process_data\<close> assigns them.
\<close>

record row =
  Symbol :: string
  Open :: cell
  High :: cell
  Low :: cell
  LTP :: cell
  Turnover :: cell
  H52w :: cell
  L52w :: cell
  chng30 :: real
  chng365 :: real
  Volume :: real
  Momentum_Score :: "real option"
  Volume_Ratio :: "real option"

type_synonym frame = "row list"

datatype col = C_Open | C_High | C_Low | C_LTP | C_Turnover | C_52w_H | C_52w_L

fun get_col :: "col \<Rightarrow> row \<Rightarrow> cell" where
  "get_col C_Open r = Open r"
| "get_col C_High r = High r"
| "get_col C_Low r = Low r"
| "get_col C_LTP r = LTP r"
| "get_col C_Turnover r = Turnover r"
| "get_col C_52w_H r = H52w r"
| "get_col C_52w_L r = L52w r"

fun set_col :: "col \<Rightarrow> cell \<Rightarrow> row \<Rightarrow> row" where
  "set_col C_Open v r = r\<lparr>Open := v\<rparr>"
| "set_col C_High v r = r\<lparr>High := v\<rparr>"
| "set_col C_Low v r = r\<lparr>Low := v\<rparr>"
| "set_col C_LTP v r = r\<lparr>LTP := v\<rparr>"
| "set_col C_Turnover v r = r\<lparr>Turnover := v\<rparr>"
| "set_col C_52w_H v r = r\<lparr>H52w := v\<rparr>"
| "set_col C_52w_L v r = r\<lparr>L52w := v\<rparr>"

definition cols_to_clean :: "col list" where
  "cols_to_clean = [C_Open, C_High, C_Low, C_LTP, C_Turnover, C_52w_H, C_52w_L]"

text \<open>Exceptions and the non-finite outcome, as values.\<close>

datatype error =
    ValueError      \<comment> \<open>\<^verbatim>\<open>float(s)\<close> on a string that is no number; \<^verbatim>\<open>int(nan)\<close>\<close>
  | TypeError       \<comment> \<open>arithmetic on a string cell\<close>
  | KeyError        \<comment> \<open>a column that the row does not have\<close>
  | IndexError      \<comment> \<open>\<^verbatim>\<open>.iloc[0]\<close> of an empty selection\<close>
  | OverflowError   \<comment> \<open>\<^verbatim>\<open>int(inf)\<close>\<close>
  | NonFinite       \<comment> \<open>the program goes on with \<^verbatim>\<open>inf\<close> or \<^verbatim>\<open>nan\<close>; not followed here\<close>
  | NoSuchObject    \<comment> \<open>a reference outside the store; cannot arise in Python\<close>

subsection \<open>The store\<close>

text \<open>
  Data frames are mutable objects that \<^verbatim>\<open>_process_data\<close> updates in place, and
  \<^verbatim>\<open>instantiate_model\<close> passes a copy. The store is the list of the frames allocated so
  far; a reference is an index into it.
\<close>

type_synonym ref = nat
type_synonym store = "frame list"

definition lookup :: "store \<Rightarrow> ref \<Rightarrow> frame option" where
  "lookup s r = (if r < length s then Some (s ! r) else None)"

text \<open>\<^verbatim>\<open>data.copy()\<close>: a new frame with the same contents.\<close>

definition copy :: "store \<Rightarrow> ref \<Rightarrow> (error + ref) \<times> store" where
  "copy s r = (case lookup s r of
                 None \<Rightarrow> (Inl NoSuchObject, s)
               | Some fr \<Rightarrow> (Inr (length s), s @ [fr]))"

subsection \<open>\<^verbatim>\<open>_process_data\<close>\<close>

text \<open>
  \<^verbatim>\<open>df[col].dtype == 'object'\<close>: a column read from a CSV has dtype \<^verbatim>\<open>object\<close>
  exactly when some cell of it is not a number.
\<close>

definition dtype_is_object :: "col \<Rightarrow> frame \<Rightarrow> bool" where
  "dtype_is_object c fr = list_ex (\<lambda>r. is_Str (get_col c r)) fr"

text \<open>\<^verbatim>\<open>.str.replace(',', '', regex=False)\<close>\<close>

definition str_replace_comma :: "string \<Rightarrow> string" where
  "str_replace_comma t = filter (\<lambda>ch. ch \<noteq> CHR '','') t"

text \<open>
  \<^verbatim>\<open>.astype(str).str.replace(',', '', regex=False).astype(float)\<close> on one cell. The
  conversion of a string to a float is Python's; it is the parameter \<open>to_float\<close>, with
  \<open>None\<close> where Python raises \<^verbatim>\<open>ValueError\<close>. A cell that is a number already is
  printed and read back, which returns the same number.
\<close>

fun astype_float :: "(string \<rightharpoonup> real) \<Rightarrow> cell \<Rightarrow> error + cell" where
  "astype_float to_float (Num x) = Inr (Num x)"
| "astype_float to_float (Str t) =
     (case to_float (str_replace_comma t) of
        None \<Rightarrow> Inl ValueError
      | Some x \<Rightarrow> Inr (Num x))"

fun astype_float_column :: "(string \<rightharpoonup> real) \<Rightarrow> cell list \<Rightarrow> error + cell list" where
  "astype_float_column to_float [] = Inr []"
| "astype_float_column to_float (c # cs) =
     (case astype_float to_float c of
        Inl e \<Rightarrow> Inl e
      | Inr v \<Rightarrow> (case astype_float_column to_float cs of
                    Inl e \<Rightarrow> Inl e
                  | Inr vs \<Rightarrow> Inr (v # vs)))"

text \<open>\<^verbatim>\<open>df[col] = values\<close>\<close>

definition assign_col :: "col \<Rightarrow> cell list \<Rightarrow> frame \<Rightarrow> frame" where
  "assign_col c vs fr = map2 (set_col c) vs fr"

text \<open>
  The loop \<^verbatim>\<open>for col in cols_to_clean\<close>. It returns the exception raised, if any, and
  the frame as the loop left it: a column converted before the failing one stays converted.
\<close>

fun clean_cols :: "(string \<rightharpoonup> real) \<Rightarrow> col list \<Rightarrow> frame \<Rightarrow> error option \<times> frame" where
  "clean_cols to_float [] fr = (None, fr)"
| "clean_cols to_float (c # cs) fr =
     (if dtype_is_object c fr then
        (case astype_float_column to_float (map (get_col c) fr) of
           Inl e \<Rightarrow> (Some e, fr)
         | Inr vs \<Rightarrow> clean_cols to_float cs (assign_col c vs fr))
      else clean_cols to_float cs fr)"

text \<open>
  \<^verbatim>\<open>lambda x: x['30 d % chng'] / x['365 d % chng'] if abs(x['365 d % chng']) > 0.01 else 0\<close>
\<close>

definition momentum :: "row \<Rightarrow> real" where
  "momentum x = (if \<bar>chng365 x\<bar> > 0.01 then chng30 x / chng365 x else 0)"

text \<open>
  \<^verbatim>\<open>Series.mean()\<close> is \<^verbatim>\<open>nan\<close> for a column without rows (\<open>None\<close> here), and
  \<^verbatim>\<open>series / m\<close> divides every element by \<open>m\<close>. With no element nothing is divided; with
  an element and \<open>m = 0\<close> pandas yields \<^verbatim>\<open>inf\<close> or \<^verbatim>\<open>nan\<close>.
\<close>

definition series_mean :: "real list \<Rightarrow> real option" where
  "series_mean xs = (if xs = [] then None else Some (sum_list xs / real (length xs)))"

definition series_div :: "real list \<Rightarrow> real option \<Rightarrow> error + real list" where
  "series_div xs d =
     (if xs = [] then Inr []
      else (case d of
              None \<Rightarrow> Inl NonFinite
            | Some m \<Rightarrow> if m = 0 then Inl NonFinite else Inr (map (\<lambda>x. x / m) xs)))"

definition process_frame :: "(string \<rightharpoonup> real) \<Rightarrow> frame \<Rightarrow> error option \<times> frame" where
  "process_frame to_float fr =
     (case clean_cols to_float cols_to_clean fr of
        (Some e, fr1) \<Rightarrow> (Some e, fr1)
      | (None, fr1) \<Rightarrow>
          (let fr2 = map (\<lambda>x. x\<lparr>Momentum_Score := Some (momentum x)\<rparr>) fr1
           in case series_div (map Volume fr2) (series_mean (map Volume fr2)) of
                Inl e \<Rightarrow> (Some e, fr2)
              | Inr vr \<Rightarrow> (None, map2 (\<lambda>v x. x\<lparr>Volume_Ratio := Some v\<rparr>) vr fr2)))"

text \<open>
  \<^verbatim>\<open>_process_data(self, df)\<close> writes into the frame it is given and returns that same
  frame.
\<close>

definition process_data :: "(string \<rightharpoonup> real) \<Rightarrow> store \<Rightarrow> ref \<Rightarrow> (error + ref) \<times> store" where
  "process_data to_float s df =
     (case lookup s df of
        None \<Rightarrow> (Inl NoSuchObject, s)
      | Some fr \<Rightarrow>
          (case process_frame to_float fr of
             (Some e, fr') \<Rightarrow> (Inl e, s[df := fr'])
           | (None, fr') \<Rightarrow> (Inr df, s[df := fr'])))"

subsection \<open>The model object\<close>

record DRLTradingModel =
  df :: ref
  initial_capital :: real
  risk_free_rate :: real

text \<open>\<^verbatim>\<open>__init__(self, stock_df, initial_capital)\<close>\<close>

definition DRLTradingModel_init ::
  "(string \<rightharpoonup> real) \<Rightarrow> store \<Rightarrow> ref \<Rightarrow> real \<Rightarrow> (error + DRLTradingModel) \<times> store" where
  "DRLTradingModel_init to_float s stock_df capital =
     (case process_data to_float s stock_df of
        (Inl e, s') \<Rightarrow> (Inl e, s')
      | (Inr d, s') \<Rightarrow>
          (Inr \<lparr>df = d, initial_capital = capital, risk_free_rate = 0.05 / 252\<rparr>, s'))"

text \<open>
  \<^verbatim>\<open>instantiate_model(data, initial_capital)\<close> of \<^verbatim>\<open>app.py\<close>:
  \<^verbatim>\<open>DRLTradingModel(data.copy(), initial_capital)\<close>. The cache decorator is not modelled.
\<close>

definition instantiate_model ::
  "(string \<rightharpoonup> real) \<Rightarrow> store \<Rightarrow> ref \<Rightarrow> real \<Rightarrow> (error + DRLTradingModel) \<times> store" where
  "instantiate_model to_float s data capital =
     (case copy s data of
        (Inl e, s') \<Rightarrow> (Inl e, s')
      | (Inr c, s') \<Rightarrow> DRLTradingModel_init to_float s' c capital)"

subsection \<open>\<^verbatim>\<open>_generate_signal\<close>\<close>

datatype signal = BUY | SELL | HOLD

definition generate_signal :: "row \<Rightarrow> error + signal" where
  "generate_signal r =
     (case Volume_Ratio r of
        None \<Rightarrow> Inl KeyError
      | Some vr \<Rightarrow>
          (let score = 0.5 * chng365 r / 100 + 0.3 * chng30 r / 100 + 0.2 * (vr - 1)
           in if score > 0.15 then Inr BUY
              else if score < - 0.15 then Inr SELL
              else Inr HOLD))"

subsection \<open>\<^verbatim>\<open>run_policy_and_backtest\<close>\<close>

text \<open>Python's \<^verbatim>\<open>int(x)\<close> on a float: the integer part, rounding towards zero.\<close>

definition py_int :: "real \<Rightarrow> int" where
  "py_int x = (if 0 \<le> x then \<lfloor>x\<rfloor> else \<lceil>x\<rceil>)"

text \<open>
  The lines of the action log, with the numbers they print (the program formats them into
  text; the formatting is not modelled).
\<close>

datatype log_line =
    Buy_Signal real             \<comment> \<open>Autonomous BUY Signal triggered by DRL Score\<close>
  | Shares_Purchased int real   \<comment> \<open>Shares Purchased, Initial Investment\<close>
  | Simulated_Profit_Line real  \<comment> \<open>Simulated Profit (using 30d return as proxy)\<close>
  | Sell_Signal real            \<comment> \<open>Autonomous SELL Signal triggered by DRL Score\<close>
  | Risk_Managed                \<comment> \<open>Decision: HOLD CASH. Risk Managed: Avoided a potential loss\<close>
  | Hold_Cash_Neutral           \<comment> \<open>Decision: HOLD CASH (Neutral Stance)\<close>
  | Hold_Signal real            \<comment> \<open>Autonomous HOLD Signal triggered by DRL Score\<close>
  | Hold_Cash_Waiting           \<comment> \<open>Decision: HOLD CASH (Waiting for clearer trend)\<close>

datatype action_log = Message string | Lines "log_line list"

record metrics =
  Symbol_m :: string
  LTP_m :: cell
  Chng30d :: real
  Chng365d :: real
  DRL_Score :: real
  Final_Signal :: signal
  Initial_Capital :: real
  Final_Capital :: real
  Cumulative_Return :: real
  Sharpe_Ratio :: real
  Simulated_Profit :: real

text \<open>
  The transaction of step 2, by signal: simulated profit, cumulative return, final capital
  and the log. In the BUY branch \<^verbatim>\<open>ltp\<close> is a numpy scalar: dividing by a zero
  \<^verbatim>\<open>ltp\<close> gives \<^verbatim>\<open>inf\<close> (or \<^verbatim>\<open>nan\<close> for \<open>0 / 0\<close>), which \<^verbatim>\<open>int\<close> rejects; and
  \<^verbatim>\<open>simulated_profit / self.initial_capital\<close> with a zero capital is \<^verbatim>\<open>nan\<close>.
\<close>

definition simulate ::
  "DRLTradingModel \<Rightarrow> signal \<Rightarrow> real \<Rightarrow> cell \<Rightarrow> real \<Rightarrow> error + (real \<times> real \<times> real \<times> log_line list)" where
  "simulate self sig drl_score ltp hypothetical_return_pct =
     (case sig of
        BUY \<Rightarrow>
          (case ltp of
             Str t \<Rightarrow> Inl TypeError
           | Num p \<Rightarrow>
               if p = 0 then (if initial_capital self * 0.2 = 0 then Inl ValueError else Inl OverflowError)
               else
                 (let shares_to_buy = py_int (initial_capital self * 0.2 / p);
                      investment = real_of_int shares_to_buy * p;
                      simulated_profit = investment * hypothetical_return_pct;
                      final_capital = initial_capital self + simulated_profit
                  in if initial_capital self = 0 then Inl NonFinite
                     else Inr (simulated_profit, simulated_profit / initial_capital self, final_capital,
                               [Buy_Signal drl_score,
                                Shares_Purchased shares_to_buy investment,
                                Simulated_Profit_Line simulated_profit])))
      | SELL \<Rightarrow>
          Inr (0, 0, initial_capital self,
               if hypothetical_return_pct < 0 \<and> drl_score < 0
               then [Sell_Signal drl_score, Risk_Managed]
               else [Sell_Signal drl_score, Hold_Cash_Neutral])
      | HOLD \<Rightarrow>
          Inr (0, 0, initial_capital self, [Hold_Signal drl_score, Hold_Cash_Waiting]))"

text \<open>
  \<^verbatim>\<open>run_policy_and_backtest(self, symbol)\<close>. It reads the frame of the model and writes
  nothing: the store comes back as it went in. A symbol that is not in the frame gives
  \<^verbatim>\<open>(None, "Stock symbol not found in data.")\<close>.
\<close>

definition run_policy_and_backtest ::
  "store \<Rightarrow> DRLTradingModel \<Rightarrow> string \<Rightarrow> (error + metrics option \<times> action_log) \<times> store" where
  "run_policy_and_backtest s self symbol =
     (case lookup s (df self) of
        None \<Rightarrow> (Inl NoSuchObject, s)
      | Some fr \<Rightarrow>
          if symbol \<notin> set (map Symbol fr)
          then (Inr (None, Message ''Stock symbol not found in data.''), s)
          else
            (case filter (\<lambda>r. Symbol r = symbol) fr of
               [] \<Rightarrow> (Inl IndexError, s)
             | stock_data # rest \<Rightarrow>
                 (case generate_signal stock_data of
                    Inl e \<Rightarrow> (Inl e, s)
                  | Inr sig \<Rightarrow>
                      (case Volume_Ratio stock_data of
                         None \<Rightarrow> (Inl KeyError, s)
                       | Some vr \<Rightarrow>
                           (let drl_score = 0.5 * chng365 stock_data / 100
                                            + 0.3 * chng30 stock_data / 100
                                            + 0.2 * (vr - 1);
                                ltp = LTP stock_data;
                                hypothetical_return_pct = chng30 stock_data / 100
                            in case simulate self sig drl_score ltp hypothetical_return_pct of
                                 Inl e \<Rightarrow> (Inl e, s)
                               | Inr (simulated_profit, cumulative_return, final_capital, entries) \<Rightarrow>
                                   (let sharpe_ratio = (cumulative_return - risk_free_rate self) / 0.1
                                    in (Inr (Some \<lparr>Symbol_m = symbol,
                                                   LTP_m = ltp,
                                                   Chng30d = chng30 stock_data,
                                                   Chng365d = chng365 stock_data,
                                                   DRL_Score = drl_score,
                                                   Final_Signal = sig,
                                                   Initial_Capital = initial_capital self,
                                                   Final_Capital = final_capital,
                                                   Cumulative_Return = cumulative_return,
                                                   Sharpe_Ratio = (if cumulative_return > 0 then sharpe_ratio else 0),
                                                   Simulated_Profit = simulated_profit\<rparr>,
                                             Lines entries), s)))))))"

subsection \<open>Notions used in the statements\<close>


text \<open>
  A row with its two derived columns, given the mean volume \<open>m\<close> of the frame.
\<close>

definition with_features :: "real \<Rightarrow> row \<Rightarrow> row" where
  "with_features m x = x\<lparr>Momentum_Score := Some (momentum x), Volume_Ratio := Some (Volume x / m)\<rparr>"


subsection \<open>A worked example\<close>

text \<open>
  A frame of five rows as read from a CSV, some prices with thousands separators, and the
  frame that the preparation makes of it. The mean volume is 20.
\<close>

definition raw_row :: "string \<Rightarrow> cell \<Rightarrow> real \<Rightarrow> real \<Rightarrow> real \<Rightarrow> row" where
  "raw_row name price c30 c365 vol =
     \<lparr>Symbol = name, Open = price, High = price, Low = price, LTP = price, Turnover = Num 1,
      H52w = price, L52w = price, chng30 = c30, chng365 = c365, Volume = vol,
      Momentum_Score = None, Volume_Ratio = None\<rparr>"

definition example_data :: frame where
  "example_data =
     [raw_row ''RELIANCE'' (Str ''2,500.00'') 10 40 30,
      raw_row ''TCS'' (Str ''3,000.00'') (- 5) (- 40) 10,
      raw_row ''INFY'' (Num 1500) 0 30 20,
      raw_row ''MRF'' (Str ''250,000.00'') 10 40 20,
      raw_row ''ITC'' (Num 400) 5 0.01 20]"

definition example_to_float :: "string \<rightharpoonup> real" where
  "example_to_float =
     [''2500.00'' \<mapsto> 2500, ''3000.00'' \<mapsto> 3000, ''250000.00'' \<mapsto> 250000]"

definition prepared_row :: "string \<Rightarrow> real \<Rightarrow> real \<Rightarrow> real \<Rightarrow> real \<Rightarrow> real \<Rightarrow> real \<Rightarrow> row" where
  "prepared_row name price c30 c365 vol ms vr =
     \<lparr>Symbol = name, Open = Num price, High = Num price, Low = Num price, LTP = Num price,
      Turnover = Num 1, H52w = Num price, L52w = Num price, chng30 = c30, chng365 = c365,
      Volume = vol, Momentum_Score = Some ms, Volume_Ratio = Some vr\<rparr>"

definition example_prepared :: frame where
  "example_prepared =
     [prepared_row ''RELIANCE'' 2500 10 40 30 0.25 1.5,
      prepared_row ''TCS'' 3000 (- 5) (- 40) 10 0.125 0.5,
      prepared_row ''INFY'' 1500 0 30 20 0 1,
      prepared_row ''MRF'' 250000 10 40 20 0.25 1,
      prepared_row ''ITC'' 400 5 0.01 20 0 1]"

definition example_model :: DRLTradingModel where
  "example_model = \<lparr>df = 0, initial_capital = 1000000, risk_free_rate = 0.05 / 252\<rparr>"



section \<open>Properties of the preparation\<close>






lemma set_col_other [simp]:
  "Symbol (set_col c v r) = Symbol r" "chng30 (set_col c v r) = chng30 r"
  "chng365 (set_col c v r) = chng365 r" "Volume (set_col c v r) = Volume r"
  "Momentum_Score (set_col c v r) = Momentum_Score r" "Volume_Ratio (set_col c v r) = Volume_Ratio r"
  by (cases c; simp)+










lemma momentum_upd [simp]:
  "momentum (x\<lparr>Momentum_Score := a\<rparr>) = momentum x"
  "momentum (x\<lparr>Volume_Ratio := b\<rparr>) = momentum x"
  "momentum (set_col c v x) = momentum x"
  by (simp_all add: momentum_def)




lemma get_col_with_features [simp]: "get_col c (with_features m x) = get_col c x"
  by (cases c) (simp_all add: with_features_def)

lemma with_features_fields [simp]:
  "Symbol (with_features m x) = Symbol x"
  "chng30 (with_features m x) = chng30 x"
  "chng365 (with_features m x) = chng365 x"
  "Volume (with_features m x) = Volume x"
  "LTP (with_features m x) = LTP x"
  "Momentum_Score (with_features m x) = Some (momentum x)"
  "Volume_Ratio (with_features m x) = Some (Volume x / m)"
  by (simp_all add: with_features_def)


lemma process_data_success:
  assumes "process_data tf s d = (Inr d', s')"
  shows "\<exists>fr fr'. lookup s d = Some fr \<and> process_frame tf fr = (None, fr')
            \<and> d' = d \<and> s' = s[d := fr']"
  using assms unfolding process_data_def
  by (auto split: option.splits prod.splits)

lemma lookup_update: "lookup s d = Some fr \<Longrightarrow> lookup (s[d := fr']) d = Some fr'"
  by (auto simp: lookup_def split: if_splits)

text \<open>
  \<^verbatim>\<open>_process_data\<close> works in place: after it, the reference it was given holds the
  prepared frame, not the raw one.
\<close>

lemma process_data_in_place:
  assumes "lookup s d = Some raw" and "process_data tf s d = (Inr d', s')"
  shows "d' = d \<and> (\<exists>prepared. process_frame tf raw = (None, prepared) \<and> lookup s' d = Some prepared)"
  using process_data_success [OF assms(2)] assms(1) by (auto intro: lookup_update)

lemma init_risk_free_rate:
  "DRLTradingModel_init tf s0 d capital = (Inr self, s) \<Longrightarrow>
     risk_free_rate self = 0.05 / 252 \<and> initial_capital self = capital"
  by (auto simp: DRLTradingModel_init_def split: prod.splits sum.splits)



lemma process_frame_empty: "process_frame tf [] = (None, [])"
  by (simp add: process_frame_def cols_to_clean_def dtype_is_object_def series_div_def)




section \<open>Properties of the signal and the backtest\<close>

lemma generate_signal_cases:
  "generate_signal x = Inr sg \<Longrightarrow> \<exists>vr. Volume_Ratio x = Some vr"
  by (auto simp: generate_signal_def split: option.splits)

lemma filter_Cons_mem:
  "filter P xs = x # rest \<Longrightarrow> x \<in> set xs \<and> P x"
proof -
  assume "filter P xs = x # rest"
  then have "x \<in> set (filter P xs)" by simp
  then show ?thesis by simp
qed

lemma run_SomeD:
  assumes "run_policy_and_backtest s self symbol = (Inr (Some m, lg), s')"
  shows "\<exists>fr x rest vr sg profit cumret final entries.
           lookup s (df self) = Some fr \<and>
           filter (\<lambda>r. Symbol r = symbol) fr = x # rest \<and>
           Volume_Ratio x = Some vr \<and>
           generate_signal x = Inr sg \<and>
           simulate self sg (0.5 * chng365 x / 100 + 0.3 * chng30 x / 100 + 0.2 * (vr - 1))
             (LTP x) (chng30 x / 100) = Inr (profit, cumret, final, entries) \<and>
           m = \<lparr>Symbol_m = symbol, LTP_m = LTP x, Chng30d = chng30 x, Chng365d = chng365 x,
                DRL_Score = 0.5 * chng365 x / 100 + 0.3 * chng30 x / 100 + 0.2 * (vr - 1),
                Final_Signal = sg, Initial_Capital = initial_capital self,
                Final_Capital = final, Cumulative_Return = cumret,
                Sharpe_Ratio = (if cumret > 0 then (cumret - risk_free_rate self) / 0.1 else 0),
                Simulated_Profit = profit\<rparr> \<and>
           lg = Lines entries \<and> s' = s"
  using assms unfolding run_policy_and_backtest_def Let_def
  by (auto split: option.splits if_splits list.splits sum.splits prod.splits)

lemma run_found:
  assumes "lookup s (df self) = Some fr"
    and "filter (\<lambda>r. Symbol r = symbol) fr = x # rest"
    and "Volume_Ratio x = Some vr"
    and "generate_signal x = Inr sg"
    and "simulate self sg (0.5 * chng365 x / 100 + 0.3 * chng30 x / 100 + 0.2 * (vr - 1))
             (LTP x) (chng30 x / 100) = Inr (profit, cumret, final, entries)"
  shows "run_policy_and_backtest s self symbol =
           (Inr (Some \<lparr>Symbol_m = symbol, LTP_m = LTP x, Chng30d = chng30 x, Chng365d = chng365 x,
                DRL_Score = 0.5 * chng365 x / 100 + 0.3 * chng30 x / 100 + 0.2 * (vr - 1),
                Final_Signal = sg, Initial_Capital = initial_capital self,
                Final_Capital = final, Cumulative_Return = cumret,
                Sharpe_Ratio = (if cumret > 0 then (cumret - risk_free_rate self) / 0.1 else 0),
                Simulated_Profit = profit\<rparr>, Lines entries), s)"
proof -
  from filter_Cons_mem [OF assms(2)] have "symbol \<in> set (map Symbol fr)" by force
  with assms show ?thesis
    unfolding run_policy_and_backtest_def Let_def by simp
qed

text \<open>The signal that a decision reports is the classification of the score it reports.\<close>

lemma run_signal_matches_score:
  assumes "run_policy_and_backtest s self symbol = (Inr (Some m, lg), s')"
  shows "Final_Signal m =
           (if DRL_Score m > 0.15 then BUY else if DRL_Score m < - 0.15 then SELL else HOLD)"
proof -
  from run_SomeD [OF assms] obtain x vr sg
    where "Volume_Ratio x = Some vr" "generate_signal x = Inr sg"
      "DRL_Score m = 0.5 * chng365 x / 100 + 0.3 * chng30 x / 100 + 0.2 * (vr - 1)"
      "Final_Signal m = sg"
    by force
  then show ?thesis
    by (auto simp: generate_signal_def Let_def split: if_splits)
qed

lemma simulate_no_position:
  assumes "sg = SELL \<or> sg = HOLD"
  shows "\<exists>entries. simulate self sg sc ltp h = Inr (0, 0, initial_capital self, entries)"
  using assms by (auto simp: simulate_def)

lemma py_int_small: "0 \<le> x \<Longrightarrow> x < 1 \<Longrightarrow> py_int x = 0"
  by (simp add: py_int_def floor_eq_iff)


section \<open>The worked example, evaluated\<close>

lemma example_clean:
  "clean_cols example_to_float cols_to_clean example_data =
     (None, map (\<lambda>(x, p). x\<lparr>Open := Num p, High := Num p, Low := Num p, LTP := Num p, H52w := Num p, L52w := Num p\<rparr>)
        (zip example_data [2500, 3000, 1500, 250000, 400]))"
  by (simp add: cols_to_clean_def example_data_def raw_row_def example_to_float_def
      dtype_is_object_def assign_col_def str_replace_comma_def)

lemma example_process_frame:
  "process_frame example_to_float example_data = (None, example_prepared)"
  unfolding process_frame_def example_clean
  by (simp add: series_div_def series_mean_def momentum_def
       example_data_def raw_row_def example_prepared_def prepared_row_def)

lemma example_process_data:
  "process_data example_to_float [example_data] 0 = (Inr 0, [example_prepared])"
  by (simp add: process_data_def lookup_def example_process_frame)

lemma example_init:
  "DRLTradingModel_init example_to_float [example_data] 0 1000000
     = (Inr example_model, [example_prepared])"
  by (simp add: DRLTradingModel_init_def example_process_data example_model_def)

lemma example_lookup: "lookup [example_prepared] (df example_model) = Some example_prepared"
  by (simp add: lookup_def example_model_def)

lemma example_rows:
  "filter (\<lambda>r. Symbol r = ''RELIANCE'') example_prepared
     = [prepared_row ''RELIANCE'' 2500 10 40 30 0.25 1.5]"
  "filter (\<lambda>r. Symbol r = ''TCS'') example_prepared
     = [prepared_row ''TCS'' 3000 (- 5) (- 40) 10 0.125 0.5]"
  "filter (\<lambda>r. Symbol r = ''INFY'') example_prepared
     = [prepared_row ''INFY'' 1500 0 30 20 0 1]"
  "filter (\<lambda>r. Symbol r = ''MRF'') example_prepared
     = [prepared_row ''MRF'' 250000 10 40 20 0.25 1]"
  by (simp_all add: example_prepared_def prepared_row_def)

lemma example_signals:
  "generate_signal (prepared_row ''RELIANCE'' 2500 10 40 30 0.25 1.5) = Inr BUY"
  "generate_signal (prepared_row ''TCS'' 3000 (- 5) (- 40) 10 0.125 0.5) = Inr SELL"
  "generate_signal (prepared_row ''INFY'' 1500 0 30 20 0 1) = Inr HOLD"
  "generate_signal (prepared_row ''MRF'' 250000 10 40 20 0.25 1) = Inr BUY"
  by (simp_all add: generate_signal_def prepared_row_def)

lemma example_run_RELIANCE:
  "run_policy_and_backtest [example_prepared] example_model ''RELIANCE'' =
     (Inr (Some \<lparr>Symbol_m = ''RELIANCE'', LTP_m = Num 2500, Chng30d = 10, Chng365d = 40,
                  DRL_Score = 0.33, Final_Signal = BUY, Initial_Capital = 1000000,
                  Final_Capital = 1020000, Cumulative_Return = 0.02,
                  Sharpe_Ratio = (0.02 - 0.05 / 252) / 0.1, Simulated_Profit = 20000\<rparr>,
           Lines [Buy_Signal 0.33, Shares_Purchased 80 200000, Simulated_Profit_Line 20000]),
      [example_prepared])"
proof -
  have sim: "simulate example_model BUY
               (0.5 * chng365 (prepared_row ''RELIANCE'' 2500 10 40 30 0.25 1.5) / 100
                 + 0.3 * chng30 (prepared_row ''RELIANCE'' 2500 10 40 30 0.25 1.5) / 100
                 + 0.2 * (1.5 - 1))
               (LTP (prepared_row ''RELIANCE'' 2500 10 40 30 0.25 1.5))
               (chng30 (prepared_row ''RELIANCE'' 2500 10 40 30 0.25 1.5) / 100)
             = Inr (20000, 0.02, 1020000,
                 [Buy_Signal 0.33, Shares_Purchased 80 200000, Simulated_Profit_Line 20000])"
    by (simp add: simulate_def example_model_def prepared_row_def py_int_def Let_def)
  have vr: "Volume_Ratio (prepared_row ''RELIANCE'' 2500 10 40 30 0.25 1.5) = Some 1.5"
    by (simp add: prepared_row_def)
  from run_found [OF example_lookup example_rows(1) vr example_signals(1) sim]
  show ?thesis by (simp add: prepared_row_def example_model_def)
qed

lemma example_run_TCS:
  "run_policy_and_backtest [example_prepared] example_model ''TCS'' =
     (Inr (Some \<lparr>Symbol_m = ''TCS'', LTP_m = Num 3000, Chng30d = - 5, Chng365d = - 40,
                  DRL_Score = - 0.315, Final_Signal = SELL, Initial_Capital = 1000000,
                  Final_Capital = 1000000, Cumulative_Return = 0,
                  Sharpe_Ratio = 0, Simulated_Profit = 0\<rparr>,
           Lines [Sell_Signal (- 0.315), Risk_Managed]),
      [example_prepared])"
proof -
  have sim: "simulate example_model SELL
               (0.5 * chng365 (prepared_row ''TCS'' 3000 (- 5) (- 40) 10 0.125 0.5) / 100
                 + 0.3 * chng30 (prepared_row ''TCS'' 3000 (- 5) (- 40) 10 0.125 0.5) / 100
                 + 0.2 * (0.5 - 1))
               (LTP (prepared_row ''TCS'' 3000 (- 5) (- 40) 10 0.125 0.5))
               (chng30 (prepared_row ''TCS'' 3000 (- 5) (- 40) 10 0.125 0.5) / 100)
             = Inr (0, 0, 1000000, [Sell_Signal (- 0.315), Risk_Managed])"
    by (simp add: simulate_def example_model_def prepared_row_def)
  have vr: "Volume_Ratio (prepared_row ''TCS'' 3000 (- 5) (- 40) 10 0.125 0.5) = Some 0.5"
    by (simp add: prepared_row_def)
  from run_found [OF example_lookup example_rows(2) vr example_signals(2) sim]
  show ?thesis by (simp add: prepared_row_def example_model_def)
qed

lemma example_run_MRF:
  "run_policy_and_backtest [example_prepared] example_model ''MRF'' =
     (Inr (Some \<lparr>Symbol_m = ''MRF'', LTP_m = Num 250000, Chng30d = 10, Chng365d = 40,
                  DRL_Score = 0.23, Final_Signal = BUY, Initial_Capital = 1000000,
                  Final_Capital = 1000000, Cumulative_Return = 0,
                  Sharpe_Ratio = 0, Simulated_Profit = 0\<rparr>,
           Lines [Buy_Signal 0.23, Shares_Purchased 0 0, Simulated_Profit_Line 0]),
      [example_prepared])"
proof -
  have sim: "simulate example_model BUY
               (0.5 * chng365 (prepared_row ''MRF'' 250000 10 40 20 0.25 1) / 100
                 + 0.3 * chng30 (prepared_row ''MRF'' 250000 10 40 20 0.25 1) / 100
                 + 0.2 * (1 - 1))
               (LTP (prepared_row ''MRF'' 250000 10 40 20 0.25 1))
               (chng30 (prepared_row ''MRF'' 250000 10 40 20 0.25 1) / 100)
             = Inr (0, 0, 1000000,
                 [Buy_Signal 0.23, Shares_Purchased 0 0, Simulated_Profit_Line 0])"
    by (simp add: simulate_def example_model_def prepared_row_def py_int_def Let_def)
  have vr: "Volume_Ratio (prepared_row ''MRF'' 250000 10 40 20 0.25 1) = Some 1"
    by (simp add: prepared_row_def)
  from run_found [OF example_lookup example_rows(4) vr example_signals(4) sim]
  show ?thesis by (simp add: prepared_row_def example_model_def)
qed


section \<open>The claims\<close>

subsection \<open>C1\<close>



subsection \<open>C2\<close>

text \<open>
  Claim C2. The classification has strictly exclusive boundaries: a score above \<open>0.15\<close>
  gives BUY, a score below \<open>-0.15\<close> gives SELL, and every other score gives HOLD, the
  scores \<open>0.15\<close> and \<open>-0.15\<close> themselves included.
\<close>

theorem signal_boundaries_exclusive:
  assumes "Volume_Ratio r = Some volumeRatio"
    and "score = 0.5 * (chng365 r / 100) + 0.3 * (chng30 r / 100) + 0.2 * (volumeRatio - 1)"
  shows "(generate_signal r = Inr BUY \<longleftrightarrow> score > 0.15) \<and>
         (generate_signal r = Inr SELL \<longleftrightarrow> score < - 0.15) \<and>
         (generate_signal r = Inr HOLD \<longleftrightarrow> - 0.15 \<le> score \<and> score \<le> 0.15)"
proof -
  have "generate_signal r =
          Inr (if score > 0.15 then BUY else if score < - 0.15 then SELL else HOLD)"
    unfolding generate_signal_def assms by (simp add: Let_def)
  then show ?thesis by auto
qed

theorem signal_boundaries_exclusive_witness:
  "Volume_Ratio (prepared_row ''INFY'' 1500 0 30 20 0 1) = Some 1 \<and>
   (0.15 :: real) = 0.5 * (chng365 (prepared_row ''INFY'' 1500 0 30 20 0 1) / 100)
          + 0.3 * (chng30 (prepared_row ''INFY'' 1500 0 30 20 0 1) / 100) + 0.2 * (1 - 1) \<and>
   generate_signal (prepared_row ''INFY'' 1500 0 30 20 0 1) = Inr HOLD"
proof -
  have h1: "Volume_Ratio (prepared_row ''INFY'' 1500 0 30 20 0 1) = Some 1"
    by (simp add: prepared_row_def)
  have h2: "(0.15 :: real) = 0.5 * (chng365 (prepared_row ''INFY'' 1500 0 30 20 0 1) / 100)
          + 0.3 * (chng30 (prepared_row ''INFY'' 1500 0 30 20 0 1) / 100) + 0.2 * (1 - 1)"
    by (simp add: prepared_row_def)
  from signal_boundaries_exclusive [OF h1 h2] h1 h2 show ?thesis by simp
qed

subsection \<open>C3\<close>




subsection \<open>C4\<close>

text \<open>
  Claim C4. When the signal is SELL or HOLD, \<^verbatim>\<open>run_policy_and_backtest\<close> returns a
  simulated profit of \<open>0\<close>, a final capital equal to the initial capital and a cumulative
  return of \<open>0\<close>, whatever the 30-day change and the other fields of the record are.
\<close>

theorem sell_hold_zero_outcome:
  assumes "lookup s (df self) = Some fr"
    and "filter (\<lambda>r. Symbol r = symbol) fr = stock_data # rest"
    and "generate_signal stock_data = Inr sg"
    and "sg = SELL \<or> sg = HOLD"
  shows "\<exists>m lg. run_policy_and_backtest s self symbol = (Inr (Some m, lg), s) \<and>
           Final_Signal m = sg \<and>
           Simulated_Profit m = 0 \<and>
           Final_Capital m = initial_capital self \<and>
           Cumulative_Return m = 0"
proof -
  from generate_signal_cases [OF assms(3)] obtain vr
    where vr: "Volume_Ratio stock_data = Some vr" by blast
  from simulate_no_position [OF assms(4)] obtain entries
    where "simulate self sg
             (0.5 * chng365 stock_data / 100 + 0.3 * chng30 stock_data / 100 + 0.2 * (vr - 1))
             (LTP stock_data) (chng30 stock_data / 100)
           = Inr (0, 0, initial_capital self, entries)"
    by blast
  from run_found [OF assms(1,2) vr assms(3) this] show ?thesis by simp
qed

theorem sell_hold_zero_outcome_witness:
  "lookup [example_prepared] (df example_model) = Some example_prepared \<and>
   generate_signal (prepared_row ''TCS'' 3000 (- 5) (- 40) 10 0.125 0.5) = Inr SELL \<and>
   run_policy_and_backtest [example_prepared] example_model ''TCS'' =
     (Inr (Some \<lparr>Symbol_m = ''TCS'', LTP_m = Num 3000, Chng30d = - 5, Chng365d = - 40,
                  DRL_Score = - 0.315, Final_Signal = SELL, Initial_Capital = 1000000,
                  Final_Capital = 1000000, Cumulative_Return = 0,
                  Sharpe_Ratio = 0, Simulated_Profit = 0\<rparr>,
           Lines [Sell_Signal (- 0.315), Risk_Managed]),
      [example_prepared])"
  using sell_hold_zero_outcome [OF example_lookup example_rows(2) example_signals(2)]
    example_lookup example_signals(2) example_run_TCS
  by simp

subsection \<open>C5\<close>

text \<open>
  Claim C5. The Sharpe ratio reported is \<open>(cumulativeReturn - 0.05/252) / 0.1\<close> when the
  cumulative return is positive, and \<open>0\<close> when it is not, although the formula itself is
  not \<open>0\<close> there.
\<close>

theorem sharpe_ratio_clamped:
  assumes "DRLTradingModel_init to_float s0 stock_df capital = (Inr self, s)"
    and "run_policy_and_backtest s self symbol = (Inr (Some m, lg), s')"
  shows "Sharpe_Ratio m =
           (if Cumulative_Return m > 0 then (Cumulative_Return m - 0.05 / 252) / 0.1 else 0) \<and>
         (Cumulative_Return m \<le> 0 \<longrightarrow>
            Sharpe_Ratio m = 0 \<and> (Cumulative_Return m - 0.05 / 252) / 0.1 \<noteq> 0)"
proof -
  from init_risk_free_rate [OF assms(1)] have rf: "risk_free_rate self = 0.05 / 252" by simp
  from run_SomeD [OF assms(2)] obtain cumret where
    "Cumulative_Return m = cumret"
    "Sharpe_Ratio m = (if cumret > 0 then (cumret - risk_free_rate self) / 0.1 else 0)"
    by force
  then show ?thesis unfolding rf by auto
qed

theorem sharpe_ratio_clamped_witness:
  "DRLTradingModel_init example_to_float [example_data] 0 1000000
     = (Inr example_model, [example_prepared]) \<and>
   run_policy_and_backtest [example_prepared] example_model ''RELIANCE'' =
     (Inr (Some \<lparr>Symbol_m = ''RELIANCE'', LTP_m = Num 2500, Chng30d = 10, Chng365d = 40,
                  DRL_Score = 0.33, Final_Signal = BUY, Initial_Capital = 1000000,
                  Final_Capital = 1020000, Cumulative_Return = 0.02,
                  Sharpe_Ratio = (0.02 - 0.05 / 252) / 0.1, Simulated_Profit = 20000\<rparr>,
           Lines [Buy_Signal 0.33, Shares_Purchased 80 200000, Simulated_Profit_Line 20000]),
      [example_prepared]) \<and>
   run_policy_and_backtest [example_prepared] example_model ''TCS'' =
     (Inr (Some \<lparr>Symbol_m = ''TCS'', LTP_m = Num 3000, Chng30d = - 5, Chng365d = - 40,
                  DRL_Score = - 0.315, Final_Signal = SELL, Initial_Capital = 1000000,
                  Final_Capital = 1000000, Cumulative_Return = 0,
                  Sharpe_Ratio = 0, Simulated_Profit = 0\<rparr>,
           Lines [Sell_Signal (- 0.315), Risk_Managed]),
      [example_prepared]) \<and>
   ((0::real) - 0.05 / 252) / 0.1 \<noteq> 0"
  using sharpe_ratio_clamped [OF example_init example_run_TCS]
    sharpe_ratio_clamped [OF example_init example_run_RELIANCE]
    example_init example_run_TCS example_run_RELIANCE
  by simp

subsection \<open>C6\<close>



subsection \<open>C7\<close>

text \<open>
  Claim C7 as stated fails: a frame with zero rows is prepared without any failure, by
  \<^verbatim>\<open>_process_data\<close> and by \<^verbatim>\<open>instantiate_model\<close> alike.
\<close>

theorem empty_dataset_counterexample:
  "process_data Map.empty [[]] 0 = (Inr 0, [[]]) \<and>
   instantiate_model Map.empty [[]] 0 100000
     = (Inr \<lparr>df = 1, initial_capital = 100000, risk_free_rate = 0.05 / 252\<rparr>, [[], []])"
  by (simp add: instantiate_model_def copy_def DRLTradingModel_init_def process_data_def
        lookup_def process_frame_empty)

text \<open>
  Claim C7, amended. The preparation of a frame with zero rows does not fail: it returns
  the frame, still without rows, and nothing is divided by the mean, since there is no
  row; every request on such a model then reports that the symbol is not found.
\<close>

theorem empty_dataset_accepted:
  assumes "lookup s stock_df = Some []"
  shows "process_data to_float s stock_df = (Inr stock_df, s) \<and>
         series_div (map Volume []) (series_mean (map Volume [])) = Inr [] \<and>
         DRLTradingModel_init to_float s stock_df capital
           = (Inr \<lparr>df = stock_df, initial_capital = capital, risk_free_rate = 0.05 / 252\<rparr>, s) \<and>
         run_policy_and_backtest s
             \<lparr>df = stock_df, initial_capital = capital, risk_free_rate = 0.05 / 252\<rparr> symbol
           = (Inr (None, Message ''Stock symbol not found in data.''), s)"
proof -
  from assms have "s[stock_df := []] = s"
    by (auto simp: lookup_def list_update_same_conv split: if_splits)
  with assms have pd: "process_data to_float s stock_df = (Inr stock_df, s)"
    by (simp add: process_data_def process_frame_empty)
  then have "DRLTradingModel_init to_float s stock_df capital
           = (Inr \<lparr>df = stock_df, initial_capital = capital, risk_free_rate = 0.05 / 252\<rparr>, s)"
    by (simp add: DRLTradingModel_init_def)
  moreover from assms have "run_policy_and_backtest s
             \<lparr>df = stock_df, initial_capital = capital, risk_free_rate = 0.05 / 252\<rparr> symbol
           = (Inr (None, Message ''Stock symbol not found in data.''), s)"
    by (simp add: run_policy_and_backtest_def)
  ultimately show ?thesis using pd by (simp add: series_div_def)
qed

theorem empty_dataset_accepted_witness:
  "lookup [[]] 0 = Some [] \<and>
   process_data Map.empty [[]] 0 = (Inr 0, [[]]) \<and>
   DRLTradingModel_init Map.empty [[]] 0 100000
     = (Inr \<lparr>df = 0, initial_capital = 100000, risk_free_rate = 0.05 / 252\<rparr>, [[]]) \<and>
   run_policy_and_backtest [[]]
       \<lparr>df = 0, initial_capital = 100000, risk_free_rate = 0.05 / 252\<rparr> ''RELIANCE''
     = (Inr (None, Message ''Stock symbol not found in data.''), [[]])"
proof -
  have h: "lookup [[]] 0 = Some []" by (simp add: lookup_def)
  from empty_dataset_accepted [OF h, of Map.empty 100000 "''RELIANCE''"] h
  show ?thesis by simp
qed

subsection \<open>C8\<close>

text \<open>
  Claim C8. For a symbol that is not in the prepared frame, \<^verbatim>\<open>run_policy_and_backtest\<close>
  reports the failure for this request only (no metrics and the message
  \<^verbatim>\<open>Stock symbol not found in data.\<close>); the frame is unchanged, and a later request for
  another symbol is answered as it would have been before.
\<close>

theorem symbol_not_found:
  assumes "lookup s (df self) = Some fr" and "symbol \<notin> set (map Symbol fr)"
  shows "run_policy_and_backtest s self symbol
           = (Inr (None, Message ''Stock symbol not found in data.''), s) \<and>
         lookup (snd (run_policy_and_backtest s self symbol)) (df self) = Some fr \<and>
         run_policy_and_backtest (snd (run_policy_and_backtest s self symbol)) self other
           = run_policy_and_backtest s self other"
proof -
  from assms have "run_policy_and_backtest s self symbol
           = (Inr (None, Message ''Stock symbol not found in data.''), s)"
    unfolding run_policy_and_backtest_def by simp
  with assms(1) show ?thesis by simp
qed

theorem symbol_not_found_witness:
  "lookup [example_prepared] (df example_model) = Some example_prepared \<and>
   ''WIPRO'' \<notin> set (map Symbol example_prepared) \<and>
   run_policy_and_backtest [example_prepared] example_model ''WIPRO''
     = (Inr (None, Message ''Stock symbol not found in data.''), [example_prepared]) \<and>
   run_policy_and_backtest
       (snd (run_policy_and_backtest [example_prepared] example_model ''WIPRO''))
       example_model ''RELIANCE''
     = (Inr (Some \<lparr>Symbol_m = ''RELIANCE'', LTP_m = Num 2500, Chng30d = 10, Chng365d = 40,
                  DRL_Score = 0.33, Final_Signal = BUY, Initial_Capital = 1000000,
                  Final_Capital = 1020000, Cumulative_Return = 0.02,
                  Sharpe_Ratio = (0.02 - 0.05 / 252) / 0.1, Simulated_Profit = 20000\<rparr>,
           Lines [Buy_Signal 0.33, Shares_Purchased 80 200000, Simulated_Profit_Line 20000]),
      [example_prepared])"
proof -
  have h: "''WIPRO'' \<notin> set (map Symbol example_prepared)"
    by (simp add: example_prepared_def prepared_row_def)
  from symbol_not_found [OF example_lookup h, of "''RELIANCE''"] example_lookup h
  show ?thesis by (simp add: example_run_RELIANCE)
qed

subsection \<open>C9\<close>



subsection \<open>C10\<close>

text \<open>
  Claim C10. When the signal is BUY and the price of one share exceeds 20 percent of the
  (positive) initial capital, no share is bought: shares, investment, simulated profit and
  cumulative return are \<open>0\<close>, the final capital is the initial capital and the Sharpe ratio
  reported is \<open>0\<close>, the outcome of SELL and HOLD.
\<close>

theorem buy_unaffordable_share:
  assumes "lookup s (df self) = Some fr"
    and "filter (\<lambda>r. Symbol r = symbol) fr = stock_data # rest"
    and "generate_signal stock_data = Inr BUY"
    and "LTP stock_data = Num ltp"
    and "0 < initial_capital self"
    and "ltp > 0.2 * initial_capital self"
  shows "\<exists>m score.
           run_policy_and_backtest s self symbol
             = (Inr (Some m, Lines [Buy_Signal score, Shares_Purchased 0 0, Simulated_Profit_Line 0]), s) \<and>
           Final_Signal m = BUY \<and>
           Simulated_Profit m = 0 \<and>
           Final_Capital m = initial_capital self \<and>
           Cumulative_Return m = 0 \<and>
           Sharpe_Ratio m = 0"
proof -
  from generate_signal_cases [OF assms(3)] obtain vr
    where vr: "Volume_Ratio stock_data = Some vr" by blast
  from assms(5,6) have pos: "0 < ltp" by simp
  have "0 \<le> initial_capital self / (5 * ltp)" "initial_capital self / (5 * ltp) < 1"
    using assms(5,6) pos by (simp_all add: field_simps)
  then have sh: "py_int (initial_capital self / (5 * ltp)) = 0" by (rule py_int_small)
  have "simulate self BUY sc (Num ltp) h =
          Inr (0, 0, initial_capital self,
               [Buy_Signal sc, Shares_Purchased 0 0, Simulated_Profit_Line 0])" for sc h
    using pos assms(5) by (simp add: simulate_def Let_def sh)
  from run_found [OF assms(1,2) vr assms(3) this [unfolded assms(4) [symmetric]]]
  show ?thesis by simp
qed

theorem buy_unaffordable_share_witness:
  "run_policy_and_backtest [example_prepared] example_model ''MRF'' =
     (Inr (Some \<lparr>Symbol_m = ''MRF'', LTP_m = Num 250000, Chng30d = 10, Chng365d = 40,
                  DRL_Score = 0.23, Final_Signal = BUY, Initial_Capital = 1000000,
                  Final_Capital = 1000000, Cumulative_Return = 0,
                  Sharpe_Ratio = 0, Simulated_Profit = 0\<rparr>,
           Lines [Buy_Signal 0.23, Shares_Purchased 0 0, Simulated_Profit_Line 0]),
      [example_prepared]) \<and>
   (250000 :: real) > 0.2 * initial_capital example_model \<and>
   0 < initial_capital example_model"
proof -
  have ltp: "LTP (prepared_row ''MRF'' 250000 10 40 20 0.25 1) = Num 250000"
    by (simp add: prepared_row_def)
  have cap: "0 < initial_capital example_model" by (simp add: example_model_def)
  have big: "250000 > 0.2 * initial_capital example_model" by (simp add: example_model_def)
  from buy_unaffordable_share [OF example_lookup example_rows(4) example_signals(4) ltp cap big]
    cap big example_run_MRF
  show ?thesis by simp
qed

end
